theory Spec2Isabelle
  imports Complex_Main "HOL-Library.Word" "HOL-Library.Signed_Division"
begin

unbundle bit_operations_syntax

section \<open>Machine integers of the firmware\<close>

text \<open>
  The firmware (\<^verbatim>\<open>firmware/src/main.c\<close>, Zephyr on a 32-bit Cortex-M33) works on
  fixed-width C integers. Each is a word of its width; a signed type is the same word
  read through \<open>sint\<close>. \<open>int\<close> is 32 bits wide on the target, so the integer
  promotions of C go through \<open>int32_t\<close>: \<open>scast\<close> promotes a signed operand,
  \<open>ucast\<close> an unsigned one, and a cast to a narrower type is \<open>ucast\<close> (it keeps
  the low bits).
\<close>

type_synonym uint8_t = "8 word"
type_synonym uint16_t = "16 word"
type_synonym int16_t = "16 word"
type_synonym int32_t = "32 word"

text \<open>
  \<^verbatim>\<open>a / b\<close> on \<^verbatim>\<open>int32_t\<close>: C division truncates towards zero
  (\<open>sdiv\<close> on \<open>int\<close>), where HOL's \<open>div\<close> rounds down.
\<close>

definition c_div :: "int32_t \<Rightarrow> int32_t \<Rightarrow> int32_t" where
  "c_div a b = word_of_int (sint a sdiv sint b)"

section \<open>The advertisement buffer and its encoder (v1.0.0)\<close>

text \<open>
  The two file-scope variables the encoder touches: the manufacturer-data array
  \<^verbatim>\<open>mfr_data\<close> that the advertisement structure \<^verbatim>\<open>ad\<close> points to, and the flag
  \<^verbatim>\<open>ble_ready\<close>.
\<close>

record fw_state =
  mfr_data :: "uint8_t list"
  ble_ready :: bool

text \<open>
  The static initialisers: company id \<^verbatim>\<open>0xFF, 0xFF\<close> followed by eight zero bytes;
  a \<^verbatim>\<open>static bool\<close> without initialiser starts as \<^verbatim>\<open>false\<close>.
\<close>

definition fw_init :: fw_state where
  "fw_init = \<lparr> mfr_data = [0xFF, 0xFF, 0x00, 0x00, 0x00, 0x00, 0x00, 0x00, 0x00, 0x00],
               ble_ready = False \<rparr>"

text \<open>
  \<^verbatim>\<open>bt_ready_cb(err)\<close>. The result of the external call \<^verbatim>\<open>bt_le_adv_start\<close> is the
  parameter \<open>adv_start\<close>; it is consulted only when \<open>err\<close> is zero.
\<close>

definition bt_ready_cb :: "int32_t \<Rightarrow> int32_t \<Rightarrow> fw_state \<Rightarrow> fw_state" where
  "bt_ready_cb err adv_start s =
     (if err \<noteq> 0 then s
      else if adv_start = 0 then s\<lparr> ble_ready := True \<rparr>
      else s)"

text \<open>
  \<^verbatim>\<open>update_ble(temp_cdeg, hum, lux, mag_ut, flags)\<close>: returns at once unless
  \<^verbatim>\<open>ble_ready\<close>; otherwise stores eight bytes at indices 2 to 9.
  \<^verbatim>\<open>x & 0xFF\<close> and \<^verbatim>\<open>x >> 8\<close> are computed on the promoted \<^verbatim>\<open>int\<close>
  (\<^verbatim>\<open>>>\<close> on a signed \<^verbatim>\<open>int\<close> is the arithmetic shift, \<open>signed_drop_bit\<close>),
  then cast to \<^verbatim>\<open>uint8_t\<close>.
\<close>

definition update_ble ::
  "int16_t \<Rightarrow> uint8_t \<Rightarrow> uint16_t \<Rightarrow> int16_t \<Rightarrow> uint8_t \<Rightarrow> fw_state \<Rightarrow> fw_state" where
  "update_ble temp_cdeg_a hum_a lux_a mag_ut_a flags_a s =
     (if \<not> ble_ready s then s
      else s\<lparr> mfr_data := (mfr_data s)
        [2 := ucast ((scast temp_cdeg_a :: int32_t) AND 0xFF),
         3 := ucast (signed_drop_bit 8 (scast temp_cdeg_a :: int32_t)),
         4 := hum_a,
         5 := ucast ((ucast lux_a :: int32_t) AND 0xFF),
         6 := ucast (signed_drop_bit 8 (ucast lux_a :: int32_t)),
         7 := ucast ((scast mag_ut_a :: int32_t) AND 0xFF),
         8 := ucast (signed_drop_bit 8 (scast mag_ut_a :: int32_t)),
         9 := flags_a] \<rparr>)"

section \<open>The main loop (v1.0.0)\<close>

text \<open>\<^verbatim>\<open>struct sensor_value\<close> of Zephyr: integer part and millionths.\<close>

record sensor_value =
  val1 :: int32_t
  val2 :: int32_t

text \<open>
  What the sensor API answers during one iteration: for each device the result of
  \<^verbatim>\<open>device_is_ready\<close>, the return code of \<^verbatim>\<open>sensor_sample_fetch\<close> and the values
  \<^verbatim>\<open>sensor_channel_get\<close> stores.
\<close>

record sensor_env =
  si7021_ready :: bool
  si7021_fetch :: int32_t
  si7021_temp :: sensor_value
  si7021_hum :: sensor_value
  veml6035_ready :: bool
  veml6035_fetch :: int32_t
  veml6035_light :: sensor_value
  si7210_ready :: bool
  si7210_fetch :: int32_t
  si7210_mag :: sensor_value

text \<open>The five locals of the loop body that reach \<^verbatim>\<open>update_ble\<close>.\<close>

record loop_vars =
  temp_cdeg :: int16_t
  hum_pct :: uint8_t
  lux :: uint16_t
  mag_ut :: int16_t
  flags :: uint8_t

definition loop_vars_init :: loop_vars where
  "loop_vars_init = \<lparr> temp_cdeg = 0, hum_pct = 0, lux = 0, mag_ut = 0, flags = 0 \<rparr>"

text \<open>
  \<^verbatim>\<open>temp.val1 * 100 + (temp.val2 < 0 ? -(-temp.val2 / 10000) : temp.val2 / 10000)\<close>
  on \<^verbatim>\<open>int32_t\<close> (arithmetic wraps in the model where C leaves overflow undefined).
\<close>

definition temp_expr :: "sensor_value \<Rightarrow> int32_t" where
  "temp_expr temp =
     val1 temp * 100 +
       (if sint (val2 temp) < 0 then - (c_div (- val2 temp) 10000)
        else c_div (val2 temp) 10000)"

text \<open>\<^verbatim>\<open>mag.val1 * 100 + mag.val2 / 10000\<close>.\<close>

definition mag_expr :: "sensor_value \<Rightarrow> int32_t" where
  "mag_expr mag = val1 mag * 100 + c_div (val2 mag) 10000"

text \<open>The three guarded blocks of the loop body, in source order.\<close>

definition read_si7021 :: "sensor_env \<Rightarrow> loop_vars \<Rightarrow> loop_vars" where
  "read_si7021 env v =
     (if si7021_ready env \<and> si7021_fetch env = 0
      then v\<lparr> temp_cdeg := ucast (temp_expr (si7021_temp env)),
              hum_pct := ucast (val1 (si7021_hum env)),
              flags := flags v OR 1 \<rparr>
      else v)"

definition read_veml6035 :: "sensor_env \<Rightarrow> loop_vars \<Rightarrow> loop_vars" where
  "read_veml6035 env v =
     (if veml6035_ready env \<and> veml6035_fetch env = 0
      then v\<lparr> lux := ucast (val1 (veml6035_light env)),
              flags := flags v OR 2 \<rparr>
      else v)"

definition read_si7210 :: "sensor_env \<Rightarrow> loop_vars \<Rightarrow> loop_vars" where
  "read_si7210 env v =
     (if si7210_ready env \<and> si7210_fetch env = 0
      then v\<lparr> mag_ut := ucast (mag_expr (si7210_mag env)),
              flags := flags v OR 4 \<rparr>
      else v)"

text \<open>The locals at the call of \<^verbatim>\<open>update_ble\<close> (line 132).\<close>

definition main_vars :: "sensor_env \<Rightarrow> loop_vars" where
  "main_vars env = read_si7210 env (read_veml6035 env (read_si7021 env loop_vars_init))"

text \<open>
  One pass through the body of \<^verbatim>\<open>while (1)\<close>. The serial print, the watchdog feed
  and the sleep do not touch the state modelled here.
\<close>

definition main_iteration :: "sensor_env \<Rightarrow> fw_state \<Rightarrow> fw_state" where
  "main_iteration env s =
     (let v = main_vars env
      in update_ble (temp_cdeg v) (hum_pct v) (lux v) (mag_ut v) (flags v) s)"

text \<open>
  A run of the firmware: from the initial state, the Bluetooth callback and loop
  iterations in any order and number. (Zephyr calls the callback once; the model is
  more liberal.)
\<close>

datatype fw_event = BtReady int32_t int32_t | Iteration sensor_env

fun fw_step :: "fw_state \<Rightarrow> fw_event \<Rightarrow> fw_state" where
  "fw_step s (BtReady err adv_start) = bt_ready_cb err adv_start s"
| "fw_step s (Iteration env) = main_iteration env s"

definition fw_run :: "fw_event list \<Rightarrow> fw_state" where
  "fw_run evs = foldl fw_step fw_init evs"

text \<open>
  Two sample answers of the sensor API: all three devices deliver (23.14 degrees C,
  52 percent, 100 lux, 5.11 gauss), and none does (the Si7021 is not ready, the other
  two fail their fetch).
\<close>

definition env_all_live :: sensor_env where
  "env_all_live =
     \<lparr> si7021_ready = True, si7021_fetch = 0,
       si7021_temp = \<lparr> val1 = 23, val2 = 140000 \<rparr>,
       si7021_hum = \<lparr> val1 = 52, val2 = 0 \<rparr>,
       veml6035_ready = True, veml6035_fetch = 0,
       veml6035_light = \<lparr> val1 = 100, val2 = 0 \<rparr>,
       si7210_ready = True, si7210_fetch = 0,
       si7210_mag = \<lparr> val1 = 5, val2 = 110000 \<rparr> \<rparr>"

definition env_none_live :: sensor_env where
  "env_none_live =
     \<lparr> si7021_ready = False, si7021_fetch = 0,
       si7021_temp = \<lparr> val1 = 23, val2 = 140000 \<rparr>,
       si7021_hum = \<lparr> val1 = 52, val2 = 0 \<rparr>,
       veml6035_ready = True, veml6035_fetch = - 5,
       veml6035_light = \<lparr> val1 = 100, val2 = 0 \<rparr>,
       si7210_ready = True, si7210_fetch = - 5,
       si7210_mag = \<lparr> val1 = 5, val2 = 110000 \<rparr> \<rparr>"

text \<open>All devices deliver, and the Si7021 reports a relative humidity of 300.\<close>

definition env_hum_300 :: sensor_env where
  "env_hum_300 = env_all_live \<lparr> si7021_hum := \<lparr> val1 = 300, val2 = 0 \<rparr> \<rparr>"

section \<open>The encoder of v0.1.0\<close>

text \<open>
  The earlier firmware (tagged 0.1.0 in the changelog): the same two variables, a
  nine-byte \<^verbatim>\<open>mfr_data\<close> without the flags byte, the same callback, and an
  \<^verbatim>\<open>update_ble\<close> of four arguments.
\<close>

definition fw_init_v010 :: fw_state where
  "fw_init_v010 = \<lparr> mfr_data = [0xFF, 0xFF, 0x00, 0x00, 0x00, 0x00, 0x00, 0x00, 0x00],
                    ble_ready = False \<rparr>"

definition update_ble_v010 ::
  "int16_t \<Rightarrow> uint8_t \<Rightarrow> uint16_t \<Rightarrow> int16_t \<Rightarrow> fw_state \<Rightarrow> fw_state" where
  "update_ble_v010 temp_cdeg_a hum_a lux_a mag_ut_a s =
     (if \<not> ble_ready s then s
      else s\<lparr> mfr_data := (mfr_data s)
        [2 := ucast ((scast temp_cdeg_a :: int32_t) AND 0xFF),
         3 := ucast (signed_drop_bit 8 (scast temp_cdeg_a :: int32_t)),
         4 := hum_a,
         5 := ucast ((ucast lux_a :: int32_t) AND 0xFF),
         6 := ucast (signed_drop_bit 8 (ucast lux_a :: int32_t)),
         7 := ucast ((scast mag_ut_a :: int32_t) AND 0xFF),
         8 := ucast (signed_drop_bit 8 (scast mag_ut_a :: int32_t))] \<rparr>)"

text \<open>
  The two encoders side by side: the callback and calls of \<^verbatim>\<open>update_ble\<close> with
  the same four sensor arguments; only v1.0.0 takes the flags.
\<close>

datatype enc_event =
  Ready int32_t int32_t
  | Update int16_t uint8_t uint16_t int16_t uint8_t

fun enc_step :: "fw_state \<Rightarrow> enc_event \<Rightarrow> fw_state" where
  "enc_step s (Ready err adv_start) = bt_ready_cb err adv_start s"
| "enc_step s (Update t h l m f) = update_ble t h l m f s"

fun enc_step_v010 :: "fw_state \<Rightarrow> enc_event \<Rightarrow> fw_state" where
  "enc_step_v010 s (Ready err adv_start) = bt_ready_cb err adv_start s"
| "enc_step_v010 s (Update t h l m f) = update_ble_v010 t h l m s"

section \<open>The bridge's payload codec\<close>

text \<open>
  The host side of the repository (the scanner and \<^verbatim>\<open>parse_mfr\<close>) is not among the
  sources at hand, so the codec of sections 3, 4.1 and 6 of the design is written down
  from its text.
\<close>

text \<open>
  Modelled from the spec: the two decoder errors of sections 4.1 and 7, and the
  \<open>Reading\<close> value of section 3 with its field widths (the signed fields are
  read through \<open>sint\<close>). Both belong to the bridge, which is missing from the sources.
\<close>

datatype DecodeError = BadLength | UnrecognizedSource

record Reading =
  temperature_centidegrees :: int16_t
  humidity_percent :: uint8_t
  illuminance_lux :: uint16_t
  magnetic_field_microtesla :: int16_t
  reading_flags :: uint8_t
  received_at :: nat

text \<open>
  Modelled from the spec: the little-endian interpretation of a two-byte field
  (section 4.1), low byte first; part of the missing decoder.
\<close>

definition le16 :: "uint8_t \<Rightarrow> uint8_t \<Rightarrow> 16 word" where
  "le16 lo hi = ucast lo OR push_bit 8 (ucast hi)"

text \<open>
  Modelled from the spec: the order of the decoder's two checks. The spec does not fix
  it: section 4.1 lists the length check first, section 8 asks for
  \<open>UnrecognizedSource\<close> on a mismatched tag at any length, and no decoder is among
  the sources. Both orders are modelled.
\<close>

datatype check_order = LengthFirst | TagFirst

text \<open>
  Modelled from the spec: the fields of a payload at the offsets of section 6,
  multi-byte fields little-endian, with no range validation; part of the missing
  decoder. \<open>now\<close> is the bridge's clock at the time of the call.
\<close>

definition read_fields :: "nat \<Rightarrow> uint8_t list \<Rightarrow> Reading" where
  "read_fields now bytes =
     \<lparr> temperature_centidegrees = le16 (bytes ! 2) (bytes ! 3),
       humidity_percent = bytes ! 4,
       illuminance_lux = le16 (bytes ! 5) (bytes ! 6),
       magnetic_field_microtesla = le16 (bytes ! 7) (bytes ! 8),
       reading_flags = bytes ! 9,
       received_at = now \<rparr>"

text \<open>
  Modelled from the spec: \<^verbatim>\<open>decode(bytes) -> Reading | DecodeError\<close>, the bridge's
  decoder, which is missing from the sources: a payload whose length is not that of
  the ten-byte layout fails with \<open>BadLength\<close>, one whose leading two bytes are not
  the constant \<^verbatim>\<open>FF FF\<close> fails with \<open>UnrecognizedSource\<close> (a payload shorter than
  two bytes has no matching tag), in the order \<open>ord\<close>; any other payload gives its
  fields.
\<close>

definition decode :: "check_order \<Rightarrow> nat \<Rightarrow> uint8_t list \<Rightarrow> DecodeError + Reading" where
  "decode ord now bytes =
     (case ord of
        LengthFirst \<Rightarrow>
          if length bytes \<noteq> 10 then Inl BadLength
          else if take 2 bytes \<noteq> [0xFF, 0xFF] then Inl UnrecognizedSource
          else Inr (read_fields now bytes)
      | TagFirst \<Rightarrow>
          if take 2 bytes \<noteq> [0xFF, 0xFF] then Inl UnrecognizedSource
          else if length bytes \<noteq> 10 then Inl BadLength
          else Inr (read_fields now bytes))"

section \<open>Reference notions\<close>

text \<open>
  A temperature given as whole degrees \<open>v1\<close> and millionths \<open>v2\<close>, expressed in
  hundredths of a degree as a real number, and truncation of a real towards zero.
\<close>

definition exact_centidegrees :: "int \<Rightarrow> int \<Rightarrow> real" where
  "exact_centidegrees v1 v2 = (of_int v1 + of_int v2 * (1 / 1000000)) * 100"

definition trunc_toward_zero :: "real \<Rightarrow> int" where
  "trunc_toward_zero x = (if 0 \<le> x then \<lfloor>x\<rfloor> else \<lceil>x\<rceil>)"

text \<open>
  What holds of the state along every run: nothing writes indices 0 and 1 and nothing
  changes the length, so the identity tag stays in place; the flags byte never has a
  bit above bit 2; and \<^verbatim>\<open>ble_ready\<close> is never reset, so as long as it is unset no
  call of \<^verbatim>\<open>update_ble\<close> has stored anything.
\<close>

definition buf_ok :: "fw_state \<Rightarrow> bool" where
  "buf_ok s \<longleftrightarrow>
     length (mfr_data s) = 10 \<and> mfr_data s ! 0 = 0xFF \<and> mfr_data s ! 1 = 0xFF \<and>
     mfr_data s ! 9 AND 0xF8 = 0 \<and>
     (ble_ready s \<or> mfr_data s = mfr_data fw_init)"

text \<open>
  How the states of the two firmware versions correspond: the same \<^verbatim>\<open>ble_ready\<close>,
  and the nine bytes of v0.1.0 are the first nine of the ten bytes of v1.0.0.
\<close>

definition enc_rel :: "fw_state \<Rightarrow> fw_state \<Rightarrow> bool" where
  "enc_rel s1 s0 \<longleftrightarrow>
     ble_ready s1 = ble_ready s0 \<and> length (mfr_data s1) = 10 \<and>
     mfr_data s0 = take 9 (mfr_data s1)"

section \<open>Bytes of a 16-bit value\<close>

lemma ff_mask8: "(0xFF :: int32_t) = mask 8"
  by (simp add: mask_eq_exp_minus_1)

text \<open>What the C expressions of \<^verbatim>\<open>update_ble\<close> select from a 16-bit argument.\<close>

lemma lo_byte_signed:
  "(ucast ((scast (t :: int16_t) :: int32_t) AND 0xFF) :: uint8_t) = ucast t"
  unfolding ff_mask8 by (rule bit_word_eqI) (auto simp: bit_simps)

lemma hi_byte_signed:
  "(ucast (signed_drop_bit 8 (scast (t :: int16_t) :: int32_t)) :: uint8_t) = ucast (drop_bit 8 t)"
  by (rule bit_word_eqI) (auto simp: bit_simps)

lemma lo_byte_unsigned:
  "(ucast ((ucast (t :: uint16_t) :: int32_t) AND 0xFF) :: uint8_t) = ucast t"
  unfolding ff_mask8 by (rule bit_word_eqI) (auto simp: bit_simps)

lemma hi_byte_unsigned:
  "(ucast (signed_drop_bit 8 (ucast (t :: uint16_t) :: int32_t)) :: uint8_t) = ucast (drop_bit 8 t)"
  by (rule bit_word_eqI) (auto simp: bit_simps)

text \<open>The numeric value of the two bytes, for the unsigned and the signed reading.\<close>

lemma hi_byte_uint_tb:
  "uint (ucast (drop_bit 8 (t :: 16 word)) :: 8 word) = take_bit 8 (drop_bit 8 (uint t))"
  by (rule bit_eqI) (auto simp: bit_simps)

lemma lo_byte_uint: "uint (ucast (t :: 16 word) :: 8 word) = uint t mod 256"
  by (simp add: unsigned_ucast_eq take_bit_eq_mod)

lemma hi_byte_uint: "uint (ucast (drop_bit 8 (t :: 16 word)) :: 8 word) = uint t div 256"
proof -
  have "uint t < 65536"
    using unsigned_less [of t, where 'a = int] by simp
  then have "uint t div 256 < 256" by simp
  moreover have "0 \<le> uint t div 256"
    by (simp add: pos_imp_zdiv_nonneg_iff)
  ultimately have "uint t div 256 mod 256 = uint t div 256"
    by (rule_tac mod_pos_pos_trivial)
  moreover have "uint (ucast (drop_bit 8 t) :: 8 word) = uint t div 256 mod 256"
    unfolding hi_byte_uint_tb by (simp add: take_bit_eq_mod drop_bit_eq_div)
  ultimately show ?thesis by (simp only:)
qed

lemma lo_byte_sint: "uint (ucast (t :: 16 word) :: 8 word) = sint t mod 256"
proof -
  have "uint (ucast t :: 8 word) = take_bit 8 (uint t)"
    by (simp add: unsigned_ucast_eq)
  also have "\<dots> = take_bit 8 (take_bit 16 (sint t))"
    by (simp add: uint_sint)
  also have "\<dots> = take_bit 8 (sint t)"
    by simp
  finally show ?thesis by (simp add: take_bit_eq_mod)
qed

lemma hi_byte_sint:
  "uint (ucast (drop_bit 8 (t :: 16 word)) :: 8 word) = sint t div 256 mod 256"
proof -
  have u: "uint t = take_bit 16 (sint t)"
    using uint_sint [of t] by simp
  have "uint (ucast (drop_bit 8 t) :: 8 word) = take_bit 8 (drop_bit 8 (uint t))"
    by (rule hi_byte_uint_tb)
  also have "\<dots> = take_bit 8 (drop_bit 8 (take_bit 16 (sint t)))"
    by (simp only: u)
  also have "\<dots> = take_bit 8 (drop_bit 8 (sint t))"
    by (simp only: drop_bit_take_bit) simp
  finally show ?thesis by (simp add: take_bit_eq_mod drop_bit_eq_div)
qed

lemma lo_byte_sint32: "uint (ucast (w :: int32_t) :: uint8_t) = sint w mod 256"
proof -
  have "uint (ucast w :: uint8_t) = take_bit 8 (uint w)"
    by (simp add: unsigned_ucast_eq)
  also have "\<dots> = take_bit 8 (take_bit 32 (sint w))"
    by (simp add: uint_sint)
  also have "\<dots> = take_bit 8 (sint w)"
    by simp
  finally show ?thesis by (simp add: take_bit_eq_mod)
qed

text \<open>\<open>le16\<close> is the little-endian reading: low byte plus 256 times high byte.\<close>

lemma unat_byte_lt: "unat (b :: uint8_t) < 256"
  using unsigned_less [of b, where 'a = nat] by simp

lemma unat_le16: "unat (le16 lo hi) = unat lo + 256 * unat hi"
proof -
  have "ucast lo OR push_bit 8 (ucast hi :: 16 word) = ucast lo + push_bit 8 (ucast hi :: 16 word)"
    by (rule disjunctive_add [symmetric]) (auto simp: bit_simps dest: bit_imp_le_length)
  moreover have "unat (ucast lo :: 16 word) = unat lo"
    using unat_byte_lt [of lo] by (simp add: unsigned_ucast_eq take_bit_eq_mod)
  moreover have "unat (ucast hi :: 16 word) = unat hi"
    using unat_byte_lt [of hi] by (simp add: unsigned_ucast_eq take_bit_eq_mod)
  ultimately show ?thesis
    using unat_byte_lt [of lo] unat_byte_lt [of hi]
    by (simp add: le16_def push_bit_eq_mult unat_word_ariths)
qed

lemma le16_split: "le16 (ucast w) (ucast (drop_bit 8 w)) = (w :: 16 word)"
  unfolding le16_def by (rule bit_word_eqI) (auto simp: bit_simps)

section \<open>The buffer along a run\<close>

lemma list10:
  "length xs = 10 \<Longrightarrow>
   xs = [xs ! 0, xs ! 1, xs ! 2, xs ! 3, xs ! 4, xs ! 5, xs ! 6, xs ! 7, xs ! 8, xs ! 9]"
  by (rule nth_equalityI) (auto simp: less_Suc_eq numeral_eq_Suc nth_Cons')

lemma upd10:
  assumes "length xs = 10"
  shows "xs[2 := b2, 3 := b3, 4 := b4, 5 := b5, 6 := b6, 7 := b7, 8 := b8, 9 := b9]
         = [xs ! 0, xs ! 1, b2, b3, b4, b5, b6, b7, b8, b9]"
  using assms by (subst list10 [of xs]) simp_all

lemma buf_ok_init: "buf_ok fw_init"
  by (simp add: buf_ok_def fw_init_def)

lemma buf_ok_bt_ready_cb: "buf_ok s \<Longrightarrow> buf_ok (bt_ready_cb err a s)"
  by (auto simp: buf_ok_def bt_ready_cb_def)

lemma buf_ok_update_ble:
  "buf_ok s \<Longrightarrow> f AND 0xF8 = 0 \<Longrightarrow> buf_ok (update_ble t h l m f s)"
  by (auto simp: buf_ok_def update_ble_def)

text \<open>The flags of an iteration: one bit per guarded block that ran.\<close>

lemma flags_main_vars:
  "flags (main_vars env) =
     (if si7021_ready env \<and> si7021_fetch env = 0 then 1 else 0) OR
     (if veml6035_ready env \<and> veml6035_fetch env = 0 then 2 else 0) OR
     (if si7210_ready env \<and> si7210_fetch env = 0 then 4 else 0)"
  by (simp add: main_vars_def read_si7021_def read_veml6035_def read_si7210_def
      loop_vars_init_def)

lemma flags_bits:
  "(bit (flags (main_vars env)) 0 \<longleftrightarrow> si7021_ready env \<and> si7021_fetch env = 0) \<and>
   (bit (flags (main_vars env)) 1 \<longleftrightarrow> veml6035_ready env \<and> veml6035_fetch env = 0) \<and>
   (bit (flags (main_vars env)) 2 \<longleftrightarrow> si7210_ready env \<and> si7210_fetch env = 0) \<and>
   flags (main_vars env) AND 0xF8 = 0"
  unfolding flags_main_vars by (simp add: bit_simps)

lemma buf_ok_main_iteration: "buf_ok s \<Longrightarrow> buf_ok (main_iteration env s)"
  by (simp add: main_iteration_def Let_def buf_ok_update_ble flags_bits)

lemma buf_ok_step: "buf_ok s \<Longrightarrow> buf_ok (fw_step s e)"
  by (cases e) (simp_all add: buf_ok_bt_ready_cb buf_ok_main_iteration)

lemma buf_ok_foldl: "buf_ok s \<Longrightarrow> buf_ok (foldl fw_step s evs)"
  by (induction evs arbitrary: s) (simp_all add: buf_ok_step)

lemma buf_ok_run: "buf_ok (fw_run evs)"
  by (simp add: fw_run_def buf_ok_foldl buf_ok_init)

lemma update_ble_not_ready: "\<not> ble_ready s \<Longrightarrow> update_ble t h l m f s = s"
  by (simp add: update_ble_def)

lemma update_ble_bytes:
  assumes "ble_ready s" and "buf_ok s"
  shows "mfr_data (update_ble t h l m f s) =
           [0xFF, 0xFF, ucast t, ucast (drop_bit 8 t), h, ucast l, ucast (drop_bit 8 l),
            ucast m, ucast (drop_bit 8 m), f]"
  using assms
  by (simp add: update_ble_def buf_ok_def upd10 lo_byte_signed hi_byte_signed
      lo_byte_unsigned hi_byte_unsigned)

lemma decode_wire:
  "decode ord now [0xFF, 0xFF, ucast t, ucast (drop_bit 8 t), h, ucast l, ucast (drop_bit 8 l),
               ucast m, ucast (drop_bit 8 m), f] =
   Inr \<lparr> temperature_centidegrees = t, humidity_percent = h, illuminance_lux = l,
         magnetic_field_microtesla = m, reading_flags = f, received_at = now \<rparr>"
  by (cases ord) (simp_all add: decode_def read_fields_def le16_split)

lemma ready_after_callback: "ble_ready (fw_run [BtReady 0 0])"
  by (simp add: fw_run_def fw_init_def bt_ready_cb_def)

lemma main_iteration_bytes:
  assumes "ble_ready s" and "buf_ok s"
  shows "mfr_data (main_iteration env s) =
           [0xFF, 0xFF, ucast (temp_cdeg (main_vars env)),
            ucast (drop_bit 8 (temp_cdeg (main_vars env))), hum_pct (main_vars env),
            ucast (lux (main_vars env)), ucast (drop_bit 8 (lux (main_vars env))),
            ucast (mag_ut (main_vars env)), ucast (drop_bit 8 (mag_ut (main_vars env))),
            flags (main_vars env)]"
  unfolding main_iteration_def Let_def using assms by (rule update_ble_bytes)

lemma main_iteration_not_ready:
  assumes "\<not> ble_ready s" and "buf_ok s"
  shows "mfr_data (main_iteration env s) = [0xFF, 0xFF, 0, 0, 0, 0, 0, 0, 0, 0]"
  using assms by (simp add: main_iteration_def Let_def update_ble_not_ready buf_ok_def fw_init_def)

lemma vars_zero:
  "(bit (flags (main_vars env)) 0 \<or> temp_cdeg (main_vars env) = 0 \<and> hum_pct (main_vars env) = 0) \<and>
   (bit (flags (main_vars env)) 1 \<or> lux (main_vars env) = 0) \<and>
   (bit (flags (main_vars env)) 2 \<or> mag_ut (main_vars env) = 0)"
  unfolding flags_bits [THEN conjunct1] flags_bits [THEN conjunct2, THEN conjunct1]
    flags_bits [THEN conjunct2, THEN conjunct2, THEN conjunct1]
  by (simp add: main_vars_def read_si7021_def read_veml6035_def read_si7210_def loop_vars_init_def)

section \<open>Truncating division and 32-bit arithmetic\<close>

lemma trunc_of_fraction:
  assumes "0 < d"
  shows "trunc_toward_zero (of_int n / of_int d) = n sdiv d"
proof (cases "0 \<le> n")
  case True
  then have "0 \<le> (of_int n / of_int d :: real)"
    using assms by simp
  moreover have "n sdiv d = n div d"
    using True assms by (simp add: signed_divide_int_def sgn_if)
  ultimately show ?thesis
    by (simp add: trunc_toward_zero_def floor_divide_of_int_eq)
next
  case False
  then have neg: "(of_int n / of_int d :: real) < 0"
    using assms by (simp add: divide_neg_pos)
  have "\<lceil>of_int n / of_int d :: real\<rceil> = - \<lfloor>of_int (- n) / of_int d :: real\<rfloor>"
    by (simp add: ceiling_def)
  also have "\<dots> = - ((- n) div d)"
    by (simp only: floor_divide_of_int_eq)
  finally have "\<lceil>of_int n / of_int d :: real\<rceil> = - ((- n) div d)" .
  moreover have "n sdiv d = - ((- n) div d)"
    using False assms by (simp add: signed_divide_int_def sgn_if)
  ultimately show ?thesis
    using neg by (simp add: trunc_toward_zero_def)
qed

lemma exact_centidegrees_fraction:
  "exact_centidegrees v1 v2 = of_int (v1 * 1000000 + v2) / of_int 10000"
  by (simp add: exact_centidegrees_def field_simps)

lemma sdiv_same_sign:
  assumes "0 \<le> a \<and> 0 \<le> b \<or> a \<le> 0 \<and> b \<le> 0"
  shows "(a * 1000000 + b) sdiv 10000 = a * 100 + b sdiv (10000 :: int)"
proof -
  have pos: "(x * 1000000 + y) div 10000 = x * 100 + y div (10000 :: int)" for x y
  proof -
    have "x * 1000000 + y = y + (x * 100) * 10000" by simp
    then show ?thesis by (simp only: div_mult_self1)
  qed
  from assms show ?thesis
  proof
    assume "0 \<le> a \<and> 0 \<le> b"
    then have "0 \<le> a * 1000000 + b" by simp
    then show ?thesis
      using \<open>0 \<le> a \<and> 0 \<le> b\<close> pos [of a b]
      by (simp add: signed_divide_int_def sgn_if)
  next
    assume n: "a \<le> 0 \<and> b \<le> 0"
    then have "a * 1000000 + b \<le> 0" by simp
    moreover have "- (a * 1000000 + b) = (- a) * 1000000 + (- b)" by simp
    ultimately show ?thesis
      using n pos [of "- a" "- b"]
      by (auto simp: signed_divide_int_def sgn_if)
  qed
qed


lemma sint32_of_int:
  "- 2147483648 \<le> k \<Longrightarrow> k < 2147483648 \<Longrightarrow> sint (word_of_int k :: int32_t) = k"
  by (simp add: sint_sbintrunc' signed_take_bit_int_eq_self)

lemma sint32_add:
  "- 2147483648 \<le> sint a + sint b \<Longrightarrow> sint a + sint b < 2147483648 \<Longrightarrow>
   sint (a + b :: int32_t) = sint a + sint b"
  by (simp add: sint_word_add signed_take_bit_int_eq_self)

lemma sint32_minus:
  "- 2147483648 < sint a \<Longrightarrow> sint (- a :: int32_t) = - sint a"
  using sint_lt [of a] by (simp add: sint_word_minus signed_take_bit_int_eq_self)

lemma sint32_times_100:
  "- 2147483648 \<le> sint a * 100 \<Longrightarrow> sint a * 100 < 2147483648 \<Longrightarrow>
   sint (a * 100 :: int32_t) = sint a * 100"
  by (simp add: sint_word_ariths signed_take_bit_int_eq_self)

lemma abs_sdiv_10000: "\<bar>k sdiv 10000\<bar> = \<bar>k\<bar> div (10000 :: int)"
  by (simp add: signed_divide_int_def abs_mult sgn_if pos_imp_zdiv_nonneg_iff)

lemma sint_c_div_10000: "sint (c_div a 10000) = sint a sdiv 10000"
proof -
  have "\<bar>sint a\<bar> \<le> 2147483648"
    using sint_ge [of a] sint_lt [of a] by simp
  then have "\<bar>sint a\<bar> div 10000 \<le> 2147483648 div (10000 :: int)"
    by (rule zdiv_mono1) simp
  then have "\<bar>sint a sdiv 10000\<bar> \<le> 214748"
    by (simp add: abs_sdiv_10000)
  then have "- 2147483648 \<le> sint a sdiv 10000" "sint a sdiv 10000 < 2147483648"
    by linarith+
  then show ?thesis
    by (simp add: c_div_def sint32_of_int)
qed

lemma sint16_of_int32:
  assumes "- 32768 \<le> sint w" and "sint w < 32768"
  shows "sint (ucast (w :: int32_t) :: int16_t) = sint w"
proof -
  have "(ucast w :: int16_t) = scast w"
    by (rule bit_word_eqI) (auto simp: bit_simps)
  then have "sint (ucast w :: int16_t) = signed_take_bit 15 (sint w)"
    by (simp add: signed_scast_eq)
  then show ?thesis
    using assms by (simp add: signed_take_bit_int_eq_self)
qed


lemma temp_expr_sint:
  assumes frac: "\<bar>sint (val2 temp)\<bar> < 1000000"
    and lo: "- 32768 \<le> sint (val1 temp) * 100 + sint (val2 temp) sdiv 10000"
    and hi: "sint (val1 temp) * 100 + sint (val2 temp) sdiv 10000 \<le> 32767"
  shows "sint (temp_expr temp) = sint (val1 temp) * 100 + sint (val2 temp) sdiv 10000"
proof -
  let ?a = "sint (val1 temp)" and ?b = "sint (val2 temp)"
  let ?q = "if ?b < 0 then - (c_div (- val2 temp) 10000) else c_div (val2 temp) 10000"
  have "\<bar>?b\<bar> div 10000 \<le> 1000000 div (10000 :: int)"
    using frac by (intro zdiv_mono1) simp_all
  then have qb: "\<bar>?b sdiv 10000\<bar> \<le> 100"
    by (simp add: abs_sdiv_10000)
  have q: "sint ?q = ?b sdiv 10000"
  proof (cases "?b < 0")
    case True
    have "sint (- val2 temp) = - ?b"
      using frac by (intro sint32_minus) simp
    then have "sint (c_div (- val2 temp) 10000) = - (?b sdiv 10000)"
      by (simp add: sint_c_div_10000)
    moreover have "- 2147483648 < sint (c_div (- val2 temp) 10000)"
      using qb calculation by simp
    ultimately show ?thesis
      using True by (simp add: sint32_minus)
  next
    case False
    then show ?thesis by (simp add: sint_c_div_10000)
  qed
  have a: "sint (val1 temp * 100) = ?a * 100"
    using qb lo hi by (intro sint32_times_100) linarith+
  have "- 2147483648 \<le> sint (val1 temp * 100) + sint ?q"
    and "sint (val1 temp * 100) + sint ?q < 2147483648"
    unfolding a q using lo hi by linarith+
  then have "sint (val1 temp * 100 + ?q) = sint (val1 temp * 100) + sint ?q"
    by (rule sint32_add)
  then show ?thesis
    by (simp only: temp_expr_def a q)
qed

section \<open>The two encoders in step\<close>

lemma enc_rel_init: "enc_rel fw_init fw_init_v010"
  by (simp add: enc_rel_def fw_init_def fw_init_v010_def)

lemma enc_rel_update:
  "enc_rel s1 s0 \<Longrightarrow> enc_rel (update_ble t h l m f s1) (update_ble_v010 t h l m s0)"
  by (simp add: enc_rel_def update_ble_def update_ble_v010_def take_update_swap
      list_update_beyond)

lemma enc_rel_step: "enc_rel s1 s0 \<Longrightarrow> enc_rel (enc_step s1 e) (enc_step_v010 s0 e)"
  by (cases e) (simp_all add: enc_rel_update, simp add: enc_rel_def bt_ready_cb_def)

lemma enc_rel_foldl:
  "enc_rel s1 s0 \<Longrightarrow> enc_rel (foldl enc_step s1 evs) (foldl enc_step_v010 s0 evs)"
  by (induction evs arbitrary: s1 s0) (simp_all add: enc_rel_step)

lemma list_10_snoc: "length xs = 10 \<Longrightarrow> xs = take 9 xs @ [xs ! 9]"
  using take_Suc_conv_app_nth [of 9 xs] by simp

section \<open>The wire layout\<close>

text \<open>
  C1, as stated, fails: \<^verbatim>\<open>update_ble\<close> begins with \<^verbatim>\<open>if (!ble_ready) return;\<close>, so
  a call made before the Bluetooth callback has reported success stores nothing. In the
  initial state the call with temperature \<open>-5\<close>, humidity 52, illuminance 100, magnetic
  field 511 and flags 7 leaves the buffer at its initialiser: the humidity byte is 0,
  not 52.
\<close>

theorem update_ble_before_ready_counterexample:
  "\<not> ble_ready fw_init \<and>
   mfr_data (update_ble (- 5) 52 100 511 7 fw_init) =
     [0xFF, 0xFF, 0x00, 0x00, 0x00, 0x00, 0x00, 0x00, 0x00, 0x00] \<and>
   mfr_data (update_ble (- 5) 52 100 511 7 fw_init) ! 4 \<noteq> 52"
  by (simp add: update_ble_def fw_init_def)

text \<open>
  C1, amended: in every state of a run in which \<^verbatim>\<open>ble_ready\<close> is set, for every
  int16 temperature \<open>t\<close>, uint8 humidity \<open>h\<close>, uint16 illuminance \<open>l\<close>, int16 magnetic
  field \<open>m\<close> and uint8 flags \<open>f\<close>, \<^verbatim>\<open>update_ble\<close> leaves exactly the ten-byte
  little-endian layout of section 6 in \<^verbatim>\<open>mfr_data\<close>: bytes 0 and 1 are
  \<^verbatim>\<open>0xFF 0xFF\<close>, bytes 2 and 3 the low and high byte of the temperature (two's
  complement), byte 4 the humidity, bytes 5 and 6 the low and high byte of the
  illuminance, bytes 7 and 8 those of the magnetic field, byte 9 the flags; and reading
  the byte ranges back little-endian (as \<open>le16\<close>, and as the decoder of section 4.1
  does, in either order of its checks) recovers the field values. While \<^verbatim>\<open>ble_ready\<close>
  is unset, \<^verbatim>\<open>update_ble\<close> returns without storing anything.
\<close>

theorem update_ble_wire_layout:
  assumes "ble_ready (fw_run evs)"
  shows "(let p = mfr_data (update_ble t h l m f (fw_run evs)) in
           length p = 10 \<and> p ! 0 = 0xFF \<and> p ! 1 = 0xFF \<and>
           uint (p ! 2) = sint t mod 256 \<and> uint (p ! 3) = sint t div 256 mod 256 \<and>
           p ! 4 = h \<and>
           uint (p ! 5) = uint l mod 256 \<and> uint (p ! 6) = uint l div 256 \<and>
           uint (p ! 7) = sint m mod 256 \<and> uint (p ! 8) = sint m div 256 mod 256 \<and>
           p ! 9 = f \<and>
           le16 (p ! 2) (p ! 3) = t \<and> le16 (p ! 5) (p ! 6) = l \<and> le16 (p ! 7) (p ! 8) = m \<and>
           decode ord now p =
             Inr \<lparr> temperature_centidegrees = t, humidity_percent = h, illuminance_lux = l,
                   magnetic_field_microtesla = m, reading_flags = f, received_at = now \<rparr>) \<and>
         (\<not> ble_ready s \<longrightarrow> update_ble t h l m f s = s)"
proof -
  have p: "mfr_data (update_ble t h l m f (fw_run evs)) =
             [0xFF, 0xFF, ucast t, ucast (drop_bit 8 t), h, ucast l, ucast (drop_bit 8 l),
              ucast m, ucast (drop_bit 8 m), f]"
    using assms buf_ok_run by (rule update_ble_bytes)
  have "let p = mfr_data (update_ble t h l m f (fw_run evs)) in
           length p = 10 \<and> p ! 0 = 0xFF \<and> p ! 1 = 0xFF \<and>
           uint (p ! 2) = sint t mod 256 \<and> uint (p ! 3) = sint t div 256 mod 256 \<and>
           p ! 4 = h \<and>
           uint (p ! 5) = uint l mod 256 \<and> uint (p ! 6) = uint l div 256 \<and>
           uint (p ! 7) = sint m mod 256 \<and> uint (p ! 8) = sint m div 256 mod 256 \<and>
           p ! 9 = f \<and>
           le16 (p ! 2) (p ! 3) = t \<and> le16 (p ! 5) (p ! 6) = l \<and> le16 (p ! 7) (p ! 8) = m \<and>
           decode ord now p =
             Inr \<lparr> temperature_centidegrees = t, humidity_percent = h, illuminance_lux = l,
                   magnetic_field_microtesla = m, reading_flags = f, received_at = now \<rparr>"
    unfolding p Let_def
    by (simp add: lo_byte_sint [of t] hi_byte_sint [of t] lo_byte_uint [of l] hi_byte_uint [of l]
        lo_byte_sint [of m] hi_byte_sint [of m] le16_split decode_wire)
  moreover have "\<not> ble_ready s \<longrightarrow> update_ble t h l m f s = s"
    by (simp add: update_ble_not_ready)
  ultimately show ?thesis
    by (rule conjI)
qed

theorem update_ble_wire_layout_witness:
  "ble_ready (fw_run [BtReady 0 0]) \<and>
   (let p = mfr_data (update_ble (- 5) 52 100 511 7 (fw_run [BtReady 0 0])) in
      length p = 10 \<and> p ! 0 = 0xFF \<and> p ! 1 = 0xFF \<and>
      uint (p ! 2) = sint (- 5 :: int16_t) mod 256 \<and>
      uint (p ! 3) = sint (- 5 :: int16_t) div 256 mod 256 \<and>
      p ! 4 = 52 \<and>
      uint (p ! 5) = uint (100 :: uint16_t) mod 256 \<and>
      uint (p ! 6) = uint (100 :: uint16_t) div 256 \<and>
      uint (p ! 7) = sint (511 :: int16_t) mod 256 \<and>
      uint (p ! 8) = sint (511 :: int16_t) div 256 mod 256 \<and>
      p ! 9 = 7 \<and>
      le16 (p ! 2) (p ! 3) = - 5 \<and> le16 (p ! 5) (p ! 6) = 100 \<and> le16 (p ! 7) (p ! 8) = 511 \<and>
      decode TagFirst 0 p =
        Inr \<lparr> temperature_centidegrees = - 5, humidity_percent = 52, illuminance_lux = 100,
              magnetic_field_microtesla = 511, reading_flags = 7, received_at = 0 \<rparr>) \<and>
   \<not> ble_ready fw_init \<and>
   update_ble (- 5) 52 100 511 7 fw_init = fw_init"
proof -
  note t = update_ble_wire_layout [OF ready_after_callback,
      of "- 5" 52 100 511 7 TagFirst 0 fw_init]
  have n: "\<not> ble_ready fw_init"
    by (simp add: fw_init_def)
  have "update_ble (- 5) 52 100 511 7 fw_init = fw_init"
    using t [THEN conjunct2] n by (rule mp)
  with ready_after_callback t [THEN conjunct1] n show ?thesis
    by (intro conjI)
qed

text \<open>
  C2, as stated, fails. Read little-endian, bytes 5 and 6 of
  \<^verbatim>\<open>FF FF 0A 09 34 00 64 FF 01 07\<close> are \<^verbatim>\<open>00 64\<close>, the illuminance \<^verbatim>\<open>0x6400\<close> =
  25600 and not 100; and \<^verbatim>\<open>update_ble\<close> applied to (2314, 52, 100, 511, 7) with
  \<^verbatim>\<open>ble_ready\<close> set stores the illuminance low byte first, \<^verbatim>\<open>64 00\<close>, so it does not
  yield the ten bytes of the claim. (With \<^verbatim>\<open>ble_ready\<close> unset, here after
  \<^verbatim>\<open>bt_enable\<close> reported the error \<open>-5\<close>, it stores nothing at all.)
\<close>

theorem scenario_payload_counterexample:
  "decode LengthFirst 0 [0xFF, 0xFF, 0x0A, 0x09, 0x34, 0x00, 0x64, 0xFF, 0x01, 0x07] =
     Inr \<lparr> temperature_centidegrees = 2314, humidity_percent = 52,
           illuminance_lux = 25600, magnetic_field_microtesla = 511,
           reading_flags = 0x07, received_at = 0 \<rparr> \<and>
   decode TagFirst 0 [0xFF, 0xFF, 0x0A, 0x09, 0x34, 0x00, 0x64, 0xFF, 0x01, 0x07] =
     Inr \<lparr> temperature_centidegrees = 2314, humidity_percent = 52,
           illuminance_lux = 25600, magnetic_field_microtesla = 511,
           reading_flags = 0x07, received_at = 0 \<rparr> \<and>
   (25600 :: uint16_t) \<noteq> 100 \<and>
   ble_ready (fw_run [BtReady 0 0]) \<and>
   mfr_data (update_ble 2314 52 100 511 7 (fw_run [BtReady 0 0])) =
     [0xFF, 0xFF, 0x0A, 0x09, 0x34, 0x64, 0x00, 0xFF, 0x01, 0x07] \<and>
   mfr_data (update_ble 2314 52 100 511 7 (fw_run [BtReady 0 0])) \<noteq>
     [0xFF, 0xFF, 0x0A, 0x09, 0x34, 0x00, 0x64, 0xFF, 0x01, 0x07] \<and>
   \<not> ble_ready (fw_run [BtReady (- 5) 0]) \<and>
   mfr_data (update_ble 2314 52 100 511 7 (fw_run [BtReady (- 5) 0])) =
     [0xFF, 0xFF, 0x00, 0x00, 0x00, 0x00, 0x00, 0x00, 0x00, 0x00]"
  by (simp add: update_ble_def fw_run_def bt_ready_cb_def fw_init_def decode_def
      read_fields_def le16_def)

text \<open>
  C2, amended: the payload \<^verbatim>\<open>FF FF 0A 09 34 64 00 FF 01 07\<close> (illuminance bytes
  \<^verbatim>\<open>64 00\<close>, low byte first), read in the wire layout, is temperature 2314
  centi-degrees, humidity 52 percent, illuminance 100 lux, magnetic field 511
  microtesla and flags \<^verbatim>\<open>0x07\<close>; and whenever \<^verbatim>\<open>ble_ready\<close> is set,
  \<^verbatim>\<open>update_ble\<close> applied to (2314, 52, 100, 511, 7) yields exactly those ten bytes.
  The payload as the claim prints it, with bytes \<^verbatim>\<open>00 64\<close>, reads as illuminance
  25600.
\<close>

theorem scenario_payload:
  assumes "ble_ready (fw_run evs)"
  shows "mfr_data (update_ble 2314 52 100 511 7 (fw_run evs)) =
           [0xFF, 0xFF, 0x0A, 0x09, 0x34, 0x64, 0x00, 0xFF, 0x01, 0x07] \<and>
         decode ord now [0xFF, 0xFF, 0x0A, 0x09, 0x34, 0x64, 0x00, 0xFF, 0x01, 0x07] =
           Inr \<lparr> temperature_centidegrees = 2314, humidity_percent = 52,
                 illuminance_lux = 100, magnetic_field_microtesla = 511,
                 reading_flags = 0x07, received_at = now \<rparr> \<and>
         sint (2314 :: int16_t) = 2314 \<and> sint (511 :: int16_t) = 511 \<and>
         decode ord now [0xFF, 0xFF, 0x0A, 0x09, 0x34, 0x00, 0x64, 0xFF, 0x01, 0x07] =
           Inr \<lparr> temperature_centidegrees = 2314, humidity_percent = 52,
                 illuminance_lux = 25600, magnetic_field_microtesla = 511,
                 reading_flags = 0x07, received_at = now \<rparr>"
proof -
  have "mfr_data (update_ble 2314 52 100 511 7 (fw_run evs)) =
          [0xFF, 0xFF, ucast (2314 :: int16_t), ucast (drop_bit 8 (2314 :: int16_t)), 52,
           ucast (100 :: uint16_t), ucast (drop_bit 8 (100 :: uint16_t)),
           ucast (511 :: int16_t), ucast (drop_bit 8 (511 :: int16_t)), 7]"
    using assms buf_ok_run by (rule update_ble_bytes)
  then have "mfr_data (update_ble 2314 52 100 511 7 (fw_run evs)) =
          [0xFF, 0xFF, 0x0A, 0x09, 0x34, 0x64, 0x00, 0xFF, 0x01, 0x07]"
    by simp
  moreover have "decode ord now [0xFF, 0xFF, 0x0A, 0x09, 0x34, 0x64, 0x00, 0xFF, 0x01, 0x07] =
           Inr \<lparr> temperature_centidegrees = 2314, humidity_percent = 52,
                 illuminance_lux = 100, magnetic_field_microtesla = 511,
                 reading_flags = 0x07, received_at = now \<rparr>"
    by (cases ord) (simp_all add: decode_def read_fields_def le16_def)
  moreover have "decode ord now [0xFF, 0xFF, 0x0A, 0x09, 0x34, 0x00, 0x64, 0xFF, 0x01, 0x07] =
           Inr \<lparr> temperature_centidegrees = 2314, humidity_percent = 52,
                 illuminance_lux = 25600, magnetic_field_microtesla = 511,
                 reading_flags = 0x07, received_at = now \<rparr>"
    by (cases ord) (simp_all add: decode_def read_fields_def le16_def)
  ultimately show ?thesis by simp
qed

theorem scenario_payload_witness:
  "ble_ready (fw_run [BtReady 0 0]) \<and>
   mfr_data (update_ble 2314 52 100 511 7 (fw_run [BtReady 0 0])) =
     [0xFF, 0xFF, 0x0A, 0x09, 0x34, 0x64, 0x00, 0xFF, 0x01, 0x07] \<and>
   decode LengthFirst 0 [0xFF, 0xFF, 0x0A, 0x09, 0x34, 0x64, 0x00, 0xFF, 0x01, 0x07] =
     Inr \<lparr> temperature_centidegrees = 2314, humidity_percent = 52,
           illuminance_lux = 100, magnetic_field_microtesla = 511,
           reading_flags = 0x07, received_at = 0 \<rparr> \<and>
   sint (2314 :: int16_t) = 2314 \<and> sint (511 :: int16_t) = 511 \<and>
   decode LengthFirst 0 [0xFF, 0xFF, 0x0A, 0x09, 0x34, 0x00, 0x64, 0xFF, 0x01, 0x07] =
     Inr \<lparr> temperature_centidegrees = 2314, humidity_percent = 52,
           illuminance_lux = 25600, magnetic_field_microtesla = 511,
           reading_flags = 0x07, received_at = 0 \<rparr>"
  by (rule conjI [OF ready_after_callback scenario_payload [OF ready_after_callback]])

section \<open>Round trip\<close>

text \<open>
  C3, as stated, fails for the same guard: when the callback runs without error but
  \<^verbatim>\<open>bt_le_adv_start\<close> fails (here with \<open>-12\<close>), \<^verbatim>\<open>ble_ready\<close> stays unset, the
  call of \<^verbatim>\<open>update_ble\<close> stores nothing, and decoding the buffer gives zeros instead
  of the fields (-1234, 40, 65535, -300, 5).
\<close>

theorem round_trip_counterexample:
  "\<not> ble_ready (fw_run [BtReady 0 (- 12)]) \<and>
   decode LengthFirst 0
       (mfr_data (update_ble (- 1234) 40 65535 (- 300) 5 (fw_run [BtReady 0 (- 12)]))) =
     Inr \<lparr> temperature_centidegrees = 0, humidity_percent = 0, illuminance_lux = 0,
           magnetic_field_microtesla = 0, reading_flags = 0, received_at = 0 \<rparr> \<and>
   decode LengthFirst 0
       (mfr_data (update_ble (- 1234) 40 65535 (- 300) 5 (fw_run [BtReady 0 (- 12)]))) \<noteq>
     Inr \<lparr> temperature_centidegrees = - 1234, humidity_percent = 40, illuminance_lux = 65535,
           magnetic_field_microtesla = - 300, reading_flags = 5, received_at = 0 \<rparr> \<and>
   decode TagFirst 0
       (mfr_data (update_ble (- 1234) 40 65535 (- 300) 5 (fw_run [BtReady 0 (- 12)]))) =
     Inr \<lparr> temperature_centidegrees = 0, humidity_percent = 0, illuminance_lux = 0,
           magnetic_field_microtesla = 0, reading_flags = 0, received_at = 0 \<rparr> \<and>
   decode TagFirst 0
       (mfr_data (update_ble (- 1234) 40 65535 (- 300) 5 (fw_run [BtReady 0 (- 12)]))) \<noteq>
     Inr \<lparr> temperature_centidegrees = - 1234, humidity_percent = 40, illuminance_lux = 65535,
           magnetic_field_microtesla = - 300, reading_flags = 5, received_at = 0 \<rparr>"
  by (simp add: update_ble_def fw_run_def bt_ready_cb_def fw_init_def decode_def
      read_fields_def le16_def)

text \<open>
  C3, amended: whenever \<^verbatim>\<open>ble_ready\<close> is set, for every int16 temperature, uint8
  humidity, uint16 illuminance, int16 magnetic field and uint8 flags, encoding the
  fields with \<^verbatim>\<open>update_ble\<close> and decoding the resulting ten-byte payload as the
  little-endian interpretation of the byte ranges of section 6 (the decoder of section
  4.1, in either order of its checks) yields the original field values.
\<close>

theorem round_trip:
  assumes "ble_ready (fw_run evs)"
  shows "decode ord now (mfr_data (update_ble t h l m f (fw_run evs))) =
           Inr \<lparr> temperature_centidegrees = t, humidity_percent = h, illuminance_lux = l,
                 magnetic_field_microtesla = m, reading_flags = f, received_at = now \<rparr>"
proof -
  have "mfr_data (update_ble t h l m f (fw_run evs)) =
          [0xFF, 0xFF, ucast t, ucast (drop_bit 8 t), h, ucast l, ucast (drop_bit 8 l),
           ucast m, ucast (drop_bit 8 m), f]"
    using assms buf_ok_run by (rule update_ble_bytes)
  then show ?thesis
    by (simp only: decode_wire)
qed

theorem round_trip_witness:
  "ble_ready (fw_run [BtReady 0 0]) \<and>
   decode TagFirst 17
       (mfr_data (update_ble (- 1234) 40 65535 (- 300) 5 (fw_run [BtReady 0 0]))) =
     Inr \<lparr> temperature_centidegrees = - 1234, humidity_percent = 40, illuminance_lux = 65535,
           magnetic_field_microtesla = - 300, reading_flags = 5, received_at = 17 \<rparr>"
  by (rule conjI [OF ready_after_callback round_trip [OF ready_after_callback]])

section \<open>Decoder errors\<close>





section \<open>Flags of an iteration\<close>

text \<open>
  C5, as stated, fails in the iterations that run before advertising has started: with
  \<^verbatim>\<open>ble_ready\<close> unset \<^verbatim>\<open>update_ble\<close> returns at once, so although all three
  fetches succeed (the loop's \<^verbatim>\<open>flags\<close> is 7) the flags byte of the advertisement
  buffer stays 0 and its bit 0 is clear.
\<close>

theorem main_loop_flags_before_ready_counterexample:
  "si7021_ready env_all_live \<and> si7021_fetch env_all_live = 0 \<and>
   \<not> ble_ready (fw_run []) \<and>
   flags (main_vars env_all_live) = 7 \<and>
   mfr_data (main_iteration env_all_live (fw_run [])) ! 9 = 0 \<and>
   \<not> bit (mfr_data (main_iteration env_all_live (fw_run [])) ! 9) 0"
  by (simp add: flags_main_vars env_all_live_def fw_run_def fw_init_def main_iteration_def
      update_ble_def Let_def)

text \<open>
  C5, amended: in every iteration of the main loop, the flags byte that the loop hands
  to \<^verbatim>\<open>update_ble\<close> has bit 0 set if and only if the Si7021 was ready and its sample
  fetch returned 0 in that iteration, bit 1 if and only if the VEML6035 fetch
  succeeded, bit 2 if and only if the Si7210 fetch succeeded, and bits 3 to 7 clear;
  the iteration is the call of \<^verbatim>\<open>update_ble\<close> with that byte, and in every iteration
  in which \<^verbatim>\<open>ble_ready\<close> is set it is the flags byte placed in the advertisement.
  At every point of every run the flags byte of the advertisement has bits 3 to 7
  clear.
\<close>

theorem main_loop_flags:
  "let v = main_vars env; p = mfr_data (main_iteration env (fw_run evs)) in
     (bit (flags v) 0 \<longleftrightarrow> si7021_ready env \<and> si7021_fetch env = 0) \<and>
     (bit (flags v) 1 \<longleftrightarrow> veml6035_ready env \<and> veml6035_fetch env = 0) \<and>
     (bit (flags v) 2 \<longleftrightarrow> si7210_ready env \<and> si7210_fetch env = 0) \<and>
     flags v AND 0xF8 = 0 \<and>
     main_iteration env (fw_run evs) =
       update_ble (temp_cdeg v) (hum_pct v) (lux v) (mag_ut v) (flags v) (fw_run evs) \<and>
     (ble_ready (fw_run evs) \<longrightarrow> p ! 9 = flags v) \<and>
     p ! 9 AND 0xF8 = 0"
proof -
  have "ble_ready (fw_run evs) \<Longrightarrow> mfr_data (main_iteration env (fw_run evs)) ! 9 = flags (main_vars env)"
    using main_iteration_bytes [OF _ buf_ok_run, of evs env] by simp
  moreover have "mfr_data (main_iteration env (fw_run evs)) ! 9 AND 0xF8 = 0"
    using buf_ok_main_iteration [OF buf_ok_run, of env evs] by (simp add: buf_ok_def)
  ultimately show ?thesis
    using flags_bits [of env] by (simp add: Let_def main_iteration_def)
qed

theorem main_loop_flags_witness:
  "ble_ready (fw_run [BtReady 0 0]) \<and>
   si7021_ready env_all_live \<and> si7021_fetch env_all_live = 0 \<and>
   bit (flags (main_vars env_all_live)) 0 \<and>
   bit (flags (main_vars env_all_live)) 1 \<and>
   bit (flags (main_vars env_all_live)) 2 \<and>
   flags (main_vars env_all_live) AND 0xF8 = 0 \<and>
   mfr_data (main_iteration env_all_live (fw_run [BtReady 0 0])) ! 9 = flags (main_vars env_all_live) \<and>
   mfr_data (main_iteration env_all_live (fw_run [BtReady 0 0])) ! 9 = 7"
proof -
  have e: "si7021_ready env_all_live" "si7021_fetch env_all_live = 0"
    "veml6035_ready env_all_live" "veml6035_fetch env_all_live = 0"
    "si7210_ready env_all_live" "si7210_fetch env_all_live = 0"
    by (simp_all add: env_all_live_def)
  have f: "flags (main_vars env_all_live) = 7"
    by (simp add: flags_main_vars e)
  have "ble_ready (fw_run [BtReady 0 0]) \<longrightarrow>
          mfr_data (main_iteration env_all_live (fw_run [BtReady 0 0])) ! 9 =
            flags (main_vars env_all_live)"
    using main_loop_flags [of env_all_live "[BtReady 0 0]", unfolded Let_def] by blast
  then have "mfr_data (main_iteration env_all_live (fw_run [BtReady 0 0])) ! 9 =
      flags (main_vars env_all_live)"
    using ready_after_callback by (rule mp)
  then show ?thesis
    using ready_after_callback e by (simp add: f)
qed

text \<open>
  C6: after every iteration of the main loop, in every run, a field whose flag bit is
  clear is zero in the advertisement buffer: with bit 0 clear the temperature bytes 2
  and 3 and the humidity byte 4 are zero, with bit 1 clear the illuminance bytes 5 and
  6, with bit 2 clear the magnetic-field bytes 7 and 8. This holds for the flag bits of
  the loop's local \<^verbatim>\<open>flags\<close> at the end of the iteration and for those of the flags
  byte in the buffer.
\<close>

theorem cleared_flag_zero_field:
  "let v = main_vars env; p = mfr_data (main_iteration env (fw_run evs)) in
     (\<not> bit (flags v) 0 \<longrightarrow> p ! 2 = 0 \<and> p ! 3 = 0 \<and> p ! 4 = 0) \<and>
     (\<not> bit (flags v) 1 \<longrightarrow> p ! 5 = 0 \<and> p ! 6 = 0) \<and>
     (\<not> bit (flags v) 2 \<longrightarrow> p ! 7 = 0 \<and> p ! 8 = 0) \<and>
     (\<not> bit (p ! 9) 0 \<longrightarrow> p ! 2 = 0 \<and> p ! 3 = 0 \<and> p ! 4 = 0) \<and>
     (\<not> bit (p ! 9) 1 \<longrightarrow> p ! 5 = 0 \<and> p ! 6 = 0) \<and>
     (\<not> bit (p ! 9) 2 \<longrightarrow> p ! 7 = 0 \<and> p ! 8 = 0)"
proof (cases "ble_ready (fw_run evs)")
  case True
  then have "mfr_data (main_iteration env (fw_run evs)) =
           [0xFF, 0xFF, ucast (temp_cdeg (main_vars env)),
            ucast (drop_bit 8 (temp_cdeg (main_vars env))), hum_pct (main_vars env),
            ucast (lux (main_vars env)), ucast (drop_bit 8 (lux (main_vars env))),
            ucast (mag_ut (main_vars env)), ucast (drop_bit 8 (mag_ut (main_vars env))),
            flags (main_vars env)]"
    using buf_ok_run by (rule main_iteration_bytes)
  then show ?thesis
    using vars_zero [of env] by (auto simp: Let_def)
next
  case False
  then have "mfr_data (main_iteration env (fw_run evs)) = [0xFF, 0xFF, 0, 0, 0, 0, 0, 0, 0, 0]"
    using buf_ok_run by (rule main_iteration_not_ready)
  then show ?thesis
    by (simp add: Let_def)
qed

theorem cleared_flag_zero_field_witness:
  "\<not> bit (flags (main_vars env_none_live)) 0 \<and>
   \<not> bit (flags (main_vars env_none_live)) 1 \<and>
   \<not> bit (flags (main_vars env_none_live)) 2 \<and>
   mfr_data (fw_run [BtReady 0 0, Iteration env_all_live]) ! 4 = 52 \<and>
   take 7 (drop 2 (mfr_data (main_iteration env_none_live
     (fw_run [BtReady 0 0, Iteration env_all_live])))) = [0, 0, 0, 0, 0, 0, 0]"
proof -
  let ?s = "fw_run [BtReady 0 0, Iteration env_all_live]"
  let ?p = "mfr_data (main_iteration env_none_live ?s)"
  have f: "flags (main_vars env_none_live) = 0"
    by (simp add: flags_main_vars env_none_live_def)
  have b: "\<not> bit (flags (main_vars env_none_live)) 0"
    "\<not> bit (flags (main_vars env_none_live)) 1"
    "\<not> bit (flags (main_vars env_none_live)) 2"
    by (simp_all add: f)
  have before: "mfr_data ?s ! 4 = 52"
    by (simp add: fw_run_def fw_init_def bt_ready_cb_def main_iteration_def update_ble_def
        Let_def main_vars_def read_si7021_def read_veml6035_def read_si7210_def
        loop_vars_init_def env_all_live_def)
  have len: "length ?p = 10"
    using buf_ok_main_iteration [OF buf_ok_run, of env_none_live "[BtReady 0 0, Iteration env_all_live]"]
    by (simp add: buf_ok_def)
  have z: "?p ! 2 = 0 \<and> ?p ! 3 = 0 \<and> ?p ! 4 = 0 \<and> ?p ! 5 = 0 \<and> ?p ! 6 = 0 \<and> ?p ! 7 = 0 \<and> ?p ! 8 = 0"
    using cleared_flag_zero_field [of env_none_live "[BtReady 0 0, Iteration env_all_live]"] b
    by (simp add: Let_def)
  have "take 7 (drop 2 ?p) = [0, 0, 0, 0, 0, 0, 0]"
    using len z by (subst list10 [OF len]) simp
  with b before show ?thesis by simp
qed

section \<open>Temperature in centi-degrees\<close>

text \<open>
  C7: for every sensor value whose \<^verbatim>\<open>val1\<close> (whole degrees) and \<^verbatim>\<open>val2\<close>
  (millionths) have the same sign, with \<^verbatim>\<open>|val2| < 1000000\<close>, the firmware's expression
  \<^verbatim>\<open>val1 * 100 + (val2 < 0 ? -(-val2 / 10000) : val2 / 10000)\<close> equals the temperature
  \<^verbatim>\<open>val1 + val2 / 1000000\<close> expressed in centi-degrees and truncated towards zero,
  whenever that value fits in an \<^verbatim>\<open>int16_t\<close>; the cast to \<^verbatim>\<open>int16_t\<close> then keeps it.
\<close>

theorem temp_expr_centidegrees:
  assumes sign: "0 \<le> sint (val1 temp) \<and> 0 \<le> sint (val2 temp) \<or>
                 sint (val1 temp) \<le> 0 \<and> sint (val2 temp) \<le> 0"
    and frac: "\<bar>sint (val2 temp)\<bar> < 1000000"
    and lo: "- 32768 \<le> trunc_toward_zero (exact_centidegrees (sint (val1 temp)) (sint (val2 temp)))"
    and hi: "trunc_toward_zero (exact_centidegrees (sint (val1 temp)) (sint (val2 temp))) \<le> 32767"
  shows "sint (temp_expr temp) =
           trunc_toward_zero (exact_centidegrees (sint (val1 temp)) (sint (val2 temp))) \<and>
         sint (ucast (temp_expr temp) :: int16_t) =
           trunc_toward_zero (exact_centidegrees (sint (val1 temp)) (sint (val2 temp)))"
proof -
  let ?a = "sint (val1 temp)" and ?b = "sint (val2 temp)"
  have "trunc_toward_zero (exact_centidegrees ?a ?b) = (?a * 1000000 + ?b) sdiv 10000"
    unfolding exact_centidegrees_fraction by (rule trunc_of_fraction) simp
  also have "\<dots> = ?a * 100 + ?b sdiv 10000"
    using sign by (rule sdiv_same_sign)
  finally have t: "trunc_toward_zero (exact_centidegrees ?a ?b) = ?a * 100 + ?b sdiv 10000" .
  have e: "sint (temp_expr temp) = ?a * 100 + ?b sdiv 10000"
    using frac lo hi unfolding t by (rule temp_expr_sint)
  moreover have "sint (ucast (temp_expr temp) :: int16_t) = sint (temp_expr temp)"
    using lo hi unfolding t e [symmetric] by (intro sint16_of_int32) simp_all
  ultimately show ?thesis
    by (simp only: t)
qed

theorem temp_expr_centidegrees_witness:
  "sint (val1 \<lparr> val1 = - 1 :: int32_t, val2 = - 5000 :: int32_t \<rparr>) \<le> 0 \<and>
   sint (val2 \<lparr> val1 = - 1 :: int32_t, val2 = - 5000 :: int32_t \<rparr>) \<le> 0 \<and>
   \<bar>sint (val2 \<lparr> val1 = - 1 :: int32_t, val2 = - 5000 :: int32_t \<rparr>)\<bar> < 1000000 \<and>
   trunc_toward_zero (exact_centidegrees (- 1) (- 5000)) = - 100 \<and>
   sint (temp_expr \<lparr> val1 = - 1, val2 = - 5000 \<rparr>) = - 100 \<and>
   sint (ucast (temp_expr \<lparr> val1 = - 1, val2 = - 5000 \<rparr>) :: int16_t) = - 100"
proof -
  let ?t = "\<lparr> val1 = - 1 :: int32_t, val2 = - 5000 :: int32_t \<rparr>"
  have v: "sint (val1 ?t) = - 1" "sint (val2 ?t) = - 5000"
    by simp_all
  have x: "trunc_toward_zero (exact_centidegrees (- 1) (- 5000)) = - 100"
    unfolding exact_centidegrees_fraction
    by (subst trunc_of_fraction) simp_all
  have "sint (temp_expr ?t) = - 100 \<and> sint (ucast (temp_expr ?t) :: int16_t) = - 100"
    using temp_expr_centidegrees [of ?t] unfolding v x by simp
  then show ?thesis
    using x by simp
qed

section \<open>v1.0.0 extends v0.1.0\<close>

text \<open>
  C9: after any common history of callbacks and encoder calls, for identical
  temperature, humidity, illuminance and magnetic field the encoder of v1.0.0 and the
  encoder of v0.1.0 leave identical bytes at offsets 0 to 8; the payload of v1.0.0 is
  the nine-byte payload of v0.1.0 with one byte appended at offset 9, the flags passed
  to the call (or the untouched tenth byte while \<^verbatim>\<open>ble_ready\<close> is unset).
\<close>

theorem encoders_agree:
  "let s1 = foldl enc_step fw_init evs;
       s0 = foldl enc_step_v010 fw_init_v010 evs;
       p1 = mfr_data (update_ble t h l m f s1);
       p0 = mfr_data (update_ble_v010 t h l m s0)
   in length p0 = 9 \<and> length p1 = 10 \<and> take 9 p1 = p0 \<and>
      p1 = p0 @ [if ble_ready s1 then f else mfr_data s1 ! 9]"
proof -
  let ?s1 = "foldl enc_step fw_init evs" and ?s0 = "foldl enc_step_v010 fw_init_v010 evs"
  let ?p1 = "mfr_data (update_ble t h l m f ?s1)"
  let ?p0 = "mfr_data (update_ble_v010 t h l m ?s0)"
  have r: "enc_rel ?s1 ?s0"
    using enc_rel_init by (rule enc_rel_foldl)
  then have u: "enc_rel (update_ble t h l m f ?s1) (update_ble_v010 t h l m ?s0)"
    by (rule enc_rel_update)
  then have len: "length ?p1 = 10" and tk: "?p0 = take 9 ?p1"
    by (simp_all add: enc_rel_def)
  have l1: "length (mfr_data ?s1) = 10"
    using r by (simp add: enc_rel_def)
  have last: "?p1 ! 9 = (if ble_ready ?s1 then f else mfr_data ?s1 ! 9)"
    using l1 by (simp add: update_ble_def)
  have "?p1 = take 9 ?p1 @ [?p1 ! 9]"
    using len by (rule list_10_snoc)
  then have "?p1 = ?p0 @ [if ble_ready ?s1 then f else mfr_data ?s1 ! 9]"
    by (simp only: tk [symmetric] last)
  moreover have "length ?p0 = 9"
    using len by (simp add: tk)
  ultimately show ?thesis
    using len tk unfolding Let_def by simp
qed

section \<open>The humidity byte\<close>

text \<open>
  C10, as stated, fails where nothing is stored or nothing is read. In an iteration
  that runs before advertising has started, the Si7021 delivers a humidity of 300 and
  the loop computes 44, but \<^verbatim>\<open>update_ble\<close> returns at its guard and the humidity
  byte of the advertisement stays 0. In an iteration of a ready firmware in which the
  fetch fails (return code \<open>-5\<close>), the block of line 104 is skipped and the byte
  advertised is 0 as well.
\<close>

theorem humidity_not_sent_counterexample:
  "si7021_ready env_hum_300 \<and> si7021_fetch env_hum_300 = 0 \<and>
   sint (val1 (si7021_hum env_hum_300)) = 300 \<and>
   hum_pct (main_vars env_hum_300) = 44 \<and>
   \<not> ble_ready (fw_run []) \<and>
   mfr_data (main_iteration env_hum_300 (fw_run [])) ! 4 = 0 \<and>
   mfr_data (main_iteration env_hum_300 (fw_run [])) ! 4 \<noteq> 44 \<and>
   ble_ready (fw_run [BtReady 0 0]) \<and>
   si7021_fetch (env_hum_300 \<lparr> si7021_fetch := - 5 \<rparr>) \<noteq> 0 \<and>
   mfr_data (main_iteration (env_hum_300 \<lparr> si7021_fetch := - 5 \<rparr>) (fw_run [BtReady 0 0])) ! 4 = 0"
  by (simp add: env_hum_300_def env_all_live_def fw_run_def fw_init_def bt_ready_cb_def
      main_iteration_def update_ble_def Let_def main_vars_def read_si7021_def
      read_veml6035_def read_si7210_def loop_vars_init_def)

text \<open>
  C10, amended: in every iteration in which the Si7021 fetch succeeds and
  \<^verbatim>\<open>ble_ready\<close> is set, the humidity byte of the advertisement (offset 4 of
  \<^verbatim>\<open>mfr_data\<close>) is the integer part of the sensor reading cast to \<^verbatim>\<open>uint8_t\<close>, that
  is \<^verbatim>\<open>hum.val1\<close> modulo 256, with no clamping to the 0-100 range: for any sensor
  integer reading outside 0-255 the advertised humidity wraps around (300 is sent as
  44).
\<close>

theorem humidity_cast_wraps:
  assumes "si7021_ready env" and "si7021_fetch env = 0" and "ble_ready (fw_run evs)"
  shows "mfr_data (main_iteration env (fw_run evs)) ! 4 = ucast (val1 (si7021_hum env)) \<and>
         uint (mfr_data (main_iteration env (fw_run evs)) ! 4) =
           sint (val1 (si7021_hum env)) mod 256 \<and>
         hum_pct (main_vars env) = ucast (val1 (si7021_hum env))"
proof -
  have h: "hum_pct (main_vars env) = ucast (val1 (si7021_hum env))"
    using assms(1,2)
    by (simp add: main_vars_def read_si7021_def read_veml6035_def read_si7210_def)
  have "mfr_data (main_iteration env (fw_run evs)) ! 4 = hum_pct (main_vars env)"
    using main_iteration_bytes [OF assms(3) buf_ok_run, of env] by simp
  with h show ?thesis
    by (simp add: lo_byte_sint32)
qed

theorem humidity_cast_wraps_witness:
  "si7021_ready env_hum_300 \<and> si7021_fetch env_hum_300 = 0 \<and>
   ble_ready (fw_run [BtReady 0 0]) \<and>
   sint (val1 (si7021_hum env_hum_300)) = 300 \<and>
   mfr_data (main_iteration env_hum_300 (fw_run [BtReady 0 0])) ! 4 = 44 \<and>
   uint (mfr_data (main_iteration env_hum_300 (fw_run [BtReady 0 0])) ! 4) = 300 mod 256 \<and>
   hum_pct (main_vars env_hum_300) = 44"
proof -
  have e: "si7021_ready env_hum_300" "si7021_fetch env_hum_300 = 0"
    by (simp_all add: env_hum_300_def env_all_live_def)
  have v: "val1 (si7021_hum env_hum_300) = 300"
    by (simp add: env_hum_300_def)
  have c: "ucast (300 :: int32_t) = (44 :: uint8_t)"
    by simp
  show ?thesis
    using humidity_cast_wraps [OF e ready_after_callback] e ready_after_callback
    by (simp add: v c)
qed

end
